theory Spec2Isabelle
  imports Main "HOL-Library.Multiset"
begin

section \<open>The hoots controller (controllers/hoots.js)\<close>

text \<open>
  The controller is a set of route handlers over a document collection. Each handler is
  embedded as a function from the store (and the request's user, parameters, body and
  time) to the response it sends and the store it leaves. An \<open>await\<close> is a sequential
  step; a JavaScript exception inside \<open>try\<close> is the branch that ends in the handler's
  \<open>catch\<close>, which answers with status 500.

  Object ids are natural numbers (well-formed ids only). A field of a document or of a
  request body that is absent (\<open>undefined\<close>) is \<open>None\<close>.
\<close>

subsection \<open>Documents\<close>

text \<open>\<open>req.user\<close>: the identity the token middleware attaches to the request.\<close>

record user =
  user_id :: nat
  username :: string

text \<open>
  \<open>req.body\<close> of the hoot routes and of the comment update, restricted to the paths
  \<open>author\<close>, \<open>title\<close> and \<open>text\<close>, each absent or carrying a value. A client can send
  further paths and \<open>null\<close> values; bodies of that kind are not covered by this record.
\<close>

record body =
  body_author :: "nat option"
  body_title :: "string option"
  body_text :: "string option"

text \<open>
  \<open>req.body\<close> of \<open>router.post('/:hootId/comments')\<close>, which the handler pushes as a
  whole: besides \<open>author\<close> and \<open>text\<close> a client can send the comment's \<open>_id\<close> and
  \<open>createdAt\<close>.
\<close>

record comment_body =
  cbody_id :: "nat option"
  cbody_author :: "nat option"
  cbody_text :: "string option"
  cbody_createdAt :: "nat option"

text \<open>
  Modelled from the spec: the schema (models/hoot.js) is not among the sources. The fields
  are those of the spec's data model: a comment has an id, an author reference, a text and
  a creation time; a hoot has an id, an author reference, a title, a text, its embedded
  comments in insertion order and a creation time. The spec states no validation rule, so
  the store accepts every document. The author is polymorphic: an object id in a stored
  document, a user profile in a document whose author has been expanded.
\<close>

record 'a comment =
  comment_id :: nat
  comment_author :: "'a option"
  comment_text :: "string option"
  comment_createdAt :: nat

record 'a hoot =
  hoot_id :: nat
  hoot_author :: "'a option"
  hoot_title :: "string option"
  hoot_text :: "string option"
  hoot_comments :: "nat comment list"
  hoot_createdAt :: nat

text \<open>
  The database: the hoots collection in insertion order, the users collection that
  \<open>populate\<close> reads, and the next object id that is generated for a document that
  brings none.
\<close>

record store =
  hoots :: "nat hoot list"
  users :: "user list"
  next_id :: nat

subsection \<open>Responses\<close>

text \<open>The only exception the handlers' own code raises: a property access on \<open>null\<close>.\<close>

datatype js_error = TypeError

datatype payload =
    JNull
  | JHoot "user hoot"
  | JHoots "user hoot list"
  | JDoc "nat hoot"
  | JComment "user comment"
  | JMessage string
  | JError js_error

text \<open>\<open>res.status(n).json(x)\<close> and \<open>res.status(n).send(s)\<close>.\<close>

datatype response = Json nat payload | Send nat string

subsection \<open>The persistence operations the handlers call\<close>

text \<open>\<open>doc._doc.author = x\<close>: the same document with its author replaced.\<close>

definition set_author :: "'a hoot \<Rightarrow> 'b option \<Rightarrow> 'b hoot" where
  "set_author h a =
     \<lparr>hoot_id = hoot_id h, hoot_author = a, hoot_title = hoot_title h,
      hoot_text = hoot_text h, hoot_comments = hoot_comments h,
      hoot_createdAt = hoot_createdAt h\<rparr>"

definition set_comment_author :: "'a comment \<Rightarrow> 'b option \<Rightarrow> 'b comment" where
  "set_comment_author c a =
     \<lparr>comment_id = comment_id c, comment_author = a, comment_text = comment_text c,
      comment_createdAt = comment_createdAt c\<rparr>"

definition find_user :: "store \<Rightarrow> nat \<Rightarrow> user option" where
  "find_user st uid = find (\<lambda>u. user_id u = uid) (users st)"

text \<open>
  \<open>.populate('author')\<close>: the author reference is replaced by the user it refers to, and
  by \<open>null\<close> when there is no such user.
\<close>

definition populate :: "store \<Rightarrow> nat hoot \<Rightarrow> user hoot" where
  "populate st h =
     set_author h (case hoot_author h of None \<Rightarrow> None | Some uid \<Rightarrow> find_user st uid)"

text \<open>\<open>Hoot.findById(id)\<close>: the document, or \<open>null\<close>.\<close>

definition findById :: "store \<Rightarrow> nat \<Rightarrow> nat hoot option" where
  "findById st hootId = find (\<lambda>h. hoot_id h = hootId) (hoots st)"

text \<open>\<open>Hoot.create(body)\<close>: a new document with a fresh id and the creation time.\<close>

definition create :: "store \<Rightarrow> nat \<Rightarrow> body \<Rightarrow> nat hoot \<times> store" where
  "create st now b =
     (let h = \<lparr>hoot_id = next_id st, hoot_author = body_author b,
               hoot_title = body_title b, hoot_text = body_text b,
               hoot_comments = [], hoot_createdAt = now\<rparr>
      in (h, st\<lparr>hoots := hoots st @ [h], next_id := Suc (next_id st)\<rparr>))"

text \<open>The document with the id of \<open>h'\<close> is overwritten by \<open>h'\<close>.\<close>

fun replace_doc :: "nat hoot \<Rightarrow> nat hoot list \<Rightarrow> nat hoot list" where
  "replace_doc h' [] = []"
| "replace_doc h' (h # hs) =
     (if hoot_id h = hoot_id h' then h' # hs else h # replace_doc h' hs)"

fun remove_doc :: "nat \<Rightarrow> nat hoot list \<Rightarrow> nat hoot list" where
  "remove_doc hootId [] = []"
| "remove_doc hootId (h # hs) =
     (if hoot_id h = hootId then hs else h # remove_doc hootId hs)"

text \<open>\<open>hoot.save()\<close> of a document that was read from the collection.\<close>

definition save :: "store \<Rightarrow> nat hoot \<Rightarrow> store" where
  "save st h = st\<lparr>hoots := replace_doc h (hoots st)\<rparr>"

text \<open>The update document \<open>req.body\<close> sets every path it carries.\<close>

definition apply_update :: "nat hoot \<Rightarrow> body \<Rightarrow> nat hoot" where
  "apply_update h b =
     h\<lparr>hoot_author := (case body_author b of None \<Rightarrow> hoot_author h | Some a \<Rightarrow> Some a),
       hoot_title := (case body_title b of None \<Rightarrow> hoot_title h | Some t \<Rightarrow> Some t),
       hoot_text := (case body_text b of None \<Rightarrow> hoot_text h | Some t \<Rightarrow> Some t)\<rparr>"

text \<open>\<open>Hoot.findByIdAndUpdate(id, body, { new: true })\<close>: the updated document, or \<open>null\<close>.\<close>

definition findByIdAndUpdate :: "store \<Rightarrow> nat \<Rightarrow> body \<Rightarrow> nat hoot option \<times> store" where
  "findByIdAndUpdate st hootId b =
     (case findById st hootId of
        None \<Rightarrow> (None, st)
      | Some h \<Rightarrow> (Some (apply_update h b), save st (apply_update h b)))"

text \<open>\<open>Hoot.findByIdAndDelete(id)\<close>: the deleted document, or \<open>null\<close>.\<close>

definition findByIdAndDelete :: "store \<Rightarrow> nat \<Rightarrow> nat hoot option \<times> store" where
  "findByIdAndDelete st hootId =
     (case findById st hootId of
        None \<Rightarrow> (None, st)
      | Some h \<Rightarrow> (Some h, st\<lparr>hoots := remove_doc hootId (hoots st)\<rparr>))"

text \<open>
  \<open>.sort({ createdAt: 'desc' })\<close>. Documents with equal creation times keep their
  collection order here; the database fixes no order among them, and no property below
  depends on it.
\<close>

fun insert_desc :: "'a hoot \<Rightarrow> 'a hoot list \<Rightarrow> 'a hoot list" where
  "insert_desc h [] = [h]"
| "insert_desc h (x # xs) =
     (if hoot_createdAt x \<le> hoot_createdAt h then h # x # xs else x # insert_desc h xs)"

fun sort_desc :: "'a hoot list \<Rightarrow> 'a hoot list" where
  "sort_desc [] = []"
| "sort_desc (h # hs) = insert_desc h (sort_desc hs)"

text \<open>\<open>hoot.comments.id(commentId)\<close>: the embedded comment, or \<open>null\<close>.\<close>

definition comments_id :: "nat comment list \<Rightarrow> nat \<Rightarrow> nat comment option" where
  "comments_id cs commentId = find (\<lambda>c. comment_id c = commentId) cs"

text \<open>
  \<open>comment.text = t\<close> on the comment \<open>comments.id(commentId)\<close> returned: the assignment is
  to the element of the parent's array.
\<close>

fun assign_text :: "nat \<Rightarrow> string option \<Rightarrow> nat comment list \<Rightarrow> nat comment list" where
  "assign_text commentId t [] = []"
| "assign_text commentId t (c # cs) =
     (if comment_id c = commentId then c\<lparr>comment_text := t\<rparr> # cs
      else c # assign_text commentId t cs)"

text \<open>
  \<open>hoot.comments.push(body)\<close>: the body is cast to a new embedded comment. An \<open>_id\<close>
  and a \<open>createdAt\<close> that the body carries are kept, also an \<open>_id\<close> that another
  comment of the hoot has already; a generated id and the time of saving fill in for the
  ones it does not carry.
\<close>

definition comments_push ::
  "nat comment list \<Rightarrow> nat \<Rightarrow> nat \<Rightarrow> comment_body \<Rightarrow> nat comment list" where
  "comments_push cs fresh now b =
     cs @ [\<lparr>comment_id = (case cbody_id b of None \<Rightarrow> fresh | Some i \<Rightarrow> i),
            comment_author = cbody_author b,
            comment_text = cbody_text b,
            comment_createdAt = (case cbody_createdAt b of None \<Rightarrow> now | Some t \<Rightarrow> t)\<rparr>]"

text \<open>\<open>hoot.comments.remove({ _id: commentId })\<close>: pulls the comments with that id.\<close>

definition comments_remove :: "nat comment list \<Rightarrow> nat \<Rightarrow> nat comment list" where
  "comments_remove cs commentId = filter (\<lambda>c. comment_id c \<noteq> commentId) cs"

subsection \<open>The route handlers\<close>

definition forbidden :: response where
  "forbidden = Send 403 (''You'' @ [CHR 0x27] @ ''re not allowed to do that!'')"

definition failure :: "js_error \<Rightarrow> response" where
  "failure e = Json 500 (JError e)"

text \<open>\<open>router.post('/')\<close>\<close>

definition create_hoot :: "store \<Rightarrow> user \<Rightarrow> body \<Rightarrow> nat \<Rightarrow> response \<times> store" where
  "create_hoot st req_user req_body now =
     (let b = req_body\<lparr>body_author := Some (user_id req_user)\<rparr>;
          (hoot, st') = create st now b
      in (Json 201 (JHoot (set_author hoot (Some req_user))), st'))"

text \<open>\<open>router.get('/')\<close>\<close>

definition index_hoots :: "store \<Rightarrow> response \<times> store" where
  "index_hoots st = (Json 200 (JHoots (map (populate st) (sort_desc (hoots st)))), st)"

text \<open>\<open>router.get('/:hootId')\<close>\<close>

definition show_hoot :: "store \<Rightarrow> nat \<Rightarrow> response \<times> store" where
  "show_hoot st hootId =
     (Json 200 (case findById st hootId of
                  None \<Rightarrow> JNull
                | Some hoot \<Rightarrow> JHoot (populate st hoot)), st)"

text \<open>
  \<open>hoot.author.equals(req.user._id)\<close>: a \<open>TypeError\<close> when \<open>hoot\<close> is \<open>null\<close> or has no
  author.
\<close>

definition author_equals :: "nat hoot option \<Rightarrow> nat \<Rightarrow> js_error + bool" where
  "author_equals hoot uid =
     (case hoot of
        None \<Rightarrow> Inl TypeError
      | Some h \<Rightarrow> (case hoot_author h of None \<Rightarrow> Inl TypeError | Some a \<Rightarrow> Inr (a = uid)))"

text \<open>\<open>router.put('/:hootId')\<close>\<close>

definition update_hoot :: "store \<Rightarrow> user \<Rightarrow> nat \<Rightarrow> body \<Rightarrow> response \<times> store" where
  "update_hoot st req_user hootId req_body =
     (case author_equals (findById st hootId) (user_id req_user) of
        Inl e \<Rightarrow> (failure e, st)
      | Inr False \<Rightarrow> (forbidden, st)
      | Inr True \<Rightarrow>
          (case findByIdAndUpdate st hootId req_body of
             (None, st') \<Rightarrow> (failure TypeError, st')
           | (Some updatedHoot, st') \<Rightarrow>
               (Json 200 (JHoot (set_author updatedHoot (Some req_user))), st')))"

text \<open>\<open>router.delete('/:hootId')\<close>\<close>

definition delete_hoot :: "store \<Rightarrow> user \<Rightarrow> nat \<Rightarrow> response \<times> store" where
  "delete_hoot st req_user hootId =
     (case author_equals (findById st hootId) (user_id req_user) of
        Inl e \<Rightarrow> (failure e, st)
      | Inr False \<Rightarrow> (forbidden, st)
      | Inr True \<Rightarrow>
          (case findByIdAndDelete st hootId of
             (None, st') \<Rightarrow> (Json 200 JNull, st')
           | (Some deletedHoot, st') \<Rightarrow> (Json 200 (JDoc deletedHoot), st')))"

text \<open>\<open>router.put('/:hootId/comments/:commentId')\<close>\<close>

definition update_comment :: "store \<Rightarrow> nat \<Rightarrow> nat \<Rightarrow> body \<Rightarrow> response \<times> store" where
  "update_comment st hootId commentId req_body =
     (case findById st hootId of
        None \<Rightarrow> (failure TypeError, st)
      | Some hoot \<Rightarrow>
          (case comments_id (hoot_comments hoot) commentId of
             None \<Rightarrow> (failure TypeError, st)
           | Some comment \<Rightarrow>
               (Json 200 (JMessage ''Ok''),
                save st (hoot\<lparr>hoot_comments :=
                  assign_text commentId (body_text req_body) (hoot_comments hoot)\<rparr>))))"

text \<open>\<open>router.post('/:hootId/comments')\<close>\<close>

definition create_comment ::
  "store \<Rightarrow> user \<Rightarrow> nat \<Rightarrow> comment_body \<Rightarrow> nat \<Rightarrow> response \<times> store" where
  "create_comment st req_user hootId req_body now =
     (let b = req_body\<lparr>cbody_author := Some (user_id req_user)\<rparr>
      in case findById st hootId of
           None \<Rightarrow> (failure TypeError, st)
         | Some hoot \<Rightarrow>
             (let hoot' = hoot\<lparr>hoot_comments :=
                            comments_push (hoot_comments hoot) (next_id st) now b\<rparr>;
                  st' = save (st\<lparr>next_id := (case cbody_id b of
                                                  None \<Rightarrow> Suc (next_id st)
                                                | Some i \<Rightarrow> next_id st)\<rparr>) hoot';
                  newComment = last (hoot_comments hoot')
              in (Json 201 (JComment (set_comment_author newComment (Some req_user))), st')))"

text \<open>\<open>router.delete('/:hootId/comments/:commentId')\<close>\<close>

definition delete_comment :: "store \<Rightarrow> nat \<Rightarrow> nat \<Rightarrow> response \<times> store" where
  "delete_comment st hootId commentId =
     (case findById st hootId of
        None \<Rightarrow> (failure TypeError, st)
      | Some hoot \<Rightarrow>
          (Json 200 (JMessage ''Ok''),
           save st (hoot\<lparr>hoot_comments := comments_remove (hoot_comments hoot) commentId\<rparr>)))"

subsection \<open>Observations\<close>

text \<open>The status code of a response.\<close>

definition status :: "response \<Rightarrow> nat" where
  "status r = (case r of Json n _ \<Rightarrow> n | Send n _ \<Rightarrow> n)"

subsection \<open>Example data\<close>

definition alice :: user where
  "alice = \<lparr>user_id = 1, username = ''alice''\<rparr>"

definition bob :: user where
  "bob = \<lparr>user_id = 2, username = ''bob''\<rparr>"

definition comment1 :: "nat comment" where
  "comment1 = \<lparr>comment_id = 11, comment_author = Some 2, comment_text = Some ''first'',
               comment_createdAt = 6\<rparr>"

definition comment2 :: "nat comment" where
  "comment2 = \<lparr>comment_id = 12, comment_author = Some 1, comment_text = Some ''second'',
               comment_createdAt = 7\<rparr>"

definition comment3 :: "nat comment" where
  "comment3 = \<lparr>comment_id = 13, comment_author = Some 2, comment_text = Some ''third'',
               comment_createdAt = 8\<rparr>"

definition hoot1 :: "nat hoot" where
  "hoot1 = \<lparr>hoot_id = 10, hoot_author = Some 1, hoot_title = Some ''t'',
            hoot_text = Some ''x'', hoot_comments = [comment1, comment2, comment3],
            hoot_createdAt = 5\<rparr>"

definition hoot2 :: "nat hoot" where
  "hoot2 = \<lparr>hoot_id = 14, hoot_author = Some 2, hoot_title = Some ''u'',
            hoot_text = Some ''y'', hoot_comments = [], hoot_createdAt = 9\<rparr>"

definition store1 :: store where
  "store1 = \<lparr>hoots = [hoot1, hoot2], users = [alice, bob], next_id = 15\<rparr>"

text \<open>A request body that carries an author other than the caller \<open>alice\<close>.\<close>

definition body1 :: body where
  "body1 = \<lparr>body_author = Some 2, body_title = None, body_text = Some ''new''\<rparr>"

text \<open>
  Comment bodies: one that carries an author other than the caller \<open>bob\<close> and no id,
  and one that carries the id of \<open>comment1\<close>; \<open>comment4\<close> is the comment that \<open>bob\<close>'s
  push of the second one at time 20 stores.
\<close>

definition cbody1 :: comment_body where
  "cbody1 = \<lparr>cbody_id = None, cbody_author = Some 1, cbody_text = Some ''new'',
             cbody_createdAt = None\<rparr>"

definition cbody2 :: comment_body where
  "cbody2 = \<lparr>cbody_id = Some 11, cbody_author = None, cbody_text = Some ''again'',
             cbody_createdAt = None\<rparr>"

definition comment4 :: "nat comment" where
  "comment4 = \<lparr>comment_id = 11, comment_author = Some 2, comment_text = Some ''again'',
               comment_createdAt = 20\<rparr>"

lemmas example_defs =
  alice_def bob_def comment1_def comment2_def comment3_def hoot1_def hoot2_def store1_def
  body1_def cbody1_def cbody2_def comment4_def

lemma findById_store1_10: "findById store1 10 = Some hoot1"
  by (simp add: findById_def store1_def hoot1_def hoot2_def)

lemma findById_store1_14: "findById store1 14 = Some hoot2"
  by (simp add: findById_def store1_def hoot1_def hoot2_def)

lemma findById_store1_99: "findById store1 99 = None"
  by (simp add: findById_def store1_def hoot1_def hoot2_def)

section \<open>Properties\<close>

subsection \<open>Lookup and save\<close>

lemma findById_hoot_id: "findById st hootId = Some h \<Longrightarrow> hoot_id h = hootId"
  by (auto simp: findById_def find_Some_iff)

lemma findById_in_set: "findById st hootId = Some h \<Longrightarrow> h \<in> set (hoots st)"
  by (auto simp: findById_def find_Some_iff)

lemma findById_next_id [simp]: "findById (st\<lparr>next_id := n\<rparr>) hootId = findById st hootId"
  by (simp add: findById_def)

lemma find_replace_doc_same:
  "find (\<lambda>h. hoot_id h = hoot_id h') hs = Some h \<Longrightarrow>
   find (\<lambda>h. hoot_id h = hoot_id h') (replace_doc h' hs) = Some h'"
  by (induction hs) (auto split: if_splits)

lemma find_replace_doc_other:
  "i \<noteq> hoot_id h' \<Longrightarrow>
   find (\<lambda>h. hoot_id h = i) (replace_doc h' hs) = find (\<lambda>h. hoot_id h = i) hs"
  by (induction hs) auto

lemma replace_doc_self:
  "find (\<lambda>x. hoot_id x = hoot_id h) hs = Some h \<Longrightarrow> replace_doc h hs = hs"
  by (induction hs) (auto split: if_splits)

text \<open>Saving a document makes it the one that its id finds, and no other id sees it.\<close>

lemma findById_save_same:
  "findById st hootId = Some h \<Longrightarrow> hoot_id h' = hootId \<Longrightarrow>
   findById (save st h') hootId = Some h'"
  unfolding findById_def save_def
  using find_replace_doc_same [where h' = h' and hs = "hoots st" and h = h] by simp

lemma findById_save_other:
  "i \<noteq> hoot_id h' \<Longrightarrow> findById (save st h') i = findById st i"
  unfolding findById_def save_def by (simp add: find_replace_doc_other)

text \<open>Saving a document that was not modified leaves the store as it is.\<close>

lemma save_self: "findById st hootId = Some h \<Longrightarrow> save st h = st"
  unfolding findById_def save_def
  using replace_doc_self [of h "hoots st"] findById_hoot_id [of st hootId h]
  by (simp add: findById_def)

subsection \<open>Creating and updating a hoot\<close>

text \<open>
  C3. For every caller and every request body, also one that carries another author, the
  hoot that \<open>router.post('/')\<close> stores has the caller's id as its author. The handler
  answers 201 with the new document, its author expanded to the caller, and the store
  gains exactly this document at the end of the collection.
\<close>

theorem create_hoot_author:
  "create_hoot st req_user req_body now =
     (Json 201 (JHoot \<lparr>hoot_id = next_id st, hoot_author = Some req_user,
                       hoot_title = body_title req_body, hoot_text = body_text req_body,
                       hoot_comments = [], hoot_createdAt = now\<rparr>),
      st\<lparr>hoots := hoots st @
            [\<lparr>hoot_id = next_id st, hoot_author = Some (user_id req_user),
              hoot_title = body_title req_body, hoot_text = body_text req_body,
              hoot_comments = [], hoot_createdAt = now\<rparr>],
         next_id := Suc (next_id st)\<rparr>)"
  by (simp add: create_hoot_def create_def set_author_def Let_def)

text \<open>
  When the author updates a hoot with a body that carries no author, the stored author
  stays and the title and text the body carries are applied.
\<close>

lemma update_hoot_without_author:
  assumes "findById st hootId = Some hoot"
    and "hoot_author hoot = Some (user_id req_user)"
    and "body_author req_body = None"
  shows "findById (snd (update_hoot st req_user hootId req_body)) hootId =
           Some (apply_update hoot req_body) \<and>
         hoot_author (apply_update hoot req_body) = hoot_author hoot"
  using assms findById_hoot_id [OF assms(1)]
  by (simp add: update_hoot_def author_equals_def findByIdAndUpdate_def findById_save_same
      apply_update_def)

text \<open>
  C1. The claim is that an update by the author never changes the stored author, also
  when the body carries another author. \<open>router.put('/:hootId')\<close> hands \<open>req.body\<close> to
  \<open>findByIdAndUpdate\<close> as it came: \<open>alice\<close>, the author of \<open>hoot1\<close>, sends \<open>body1\<close>, whose
  author is \<open>bob\<close>'s id. The response shows \<open>alice\<close> as the author, and the stored
  document now has \<open>bob\<close>'s id as its author.
\<close>

theorem update_hoot_overwrites_author:
  "findById store1 10 = Some hoot1 \<and> hoot_author hoot1 = Some (user_id alice) \<and>
   fst (update_hoot store1 alice 10 body1) =
     Json 200 (JHoot (set_author (hoot1\<lparr>hoot_author := Some 2, hoot_text := Some ''new''\<rparr>)
                 (Some alice))) \<and>
   findById (snd (update_hoot store1 alice 10 body1)) 10 =
     Some (hoot1\<lparr>hoot_author := Some (user_id bob), hoot_text := Some ''new''\<rparr>)"
  by (simp add: update_hoot_def author_equals_def findByIdAndUpdate_def findById_def
      apply_update_def save_def example_defs)

subsection \<open>The ownership check\<close>

text \<open>
  C2. For every existing hoot and every caller other than its author,
  \<open>router.put('/:hootId')\<close> and \<open>router.delete('/:hootId')\<close> answer 403 and leave
  the store, and so the hoot with all its fields and comments, as it was.
\<close>

theorem forbidden_leaves_store:
  assumes "findById st hootId = Some hoot"
    and "hoot_author hoot = Some a"
    and "a \<noteq> user_id req_user"
  shows "update_hoot st req_user hootId req_body = (forbidden, st) \<and>
         delete_hoot st req_user hootId = (forbidden, st) \<and>
         status forbidden = 403"
  using assms
  by (simp add: update_hoot_def delete_hoot_def author_equals_def forbidden_def status_def)

theorem forbidden_leaves_store_witness:
  "findById store1 10 = Some hoot1 \<and> hoot_author hoot1 = Some 1 \<and> 1 \<noteq> user_id bob \<and>
   update_hoot store1 bob 10 body1 = (forbidden, store1) \<and>
   delete_hoot store1 bob 10 = (forbidden, store1)"
proof -
  have a: "hoot_author hoot1 = Some 1" by (simp add: hoot1_def)
  have b: "1 \<noteq> user_id bob" by (simp add: bob_def)
  show ?thesis
    using forbidden_leaves_store [OF findById_store1_10 a b, of body1] findById_store1_10 a b
    by simp
qed

subsection \<open>Reading hoots\<close>

text \<open>
  C4, as the code has it. For every id that finds no hoot, \<open>router.get('/:hootId')\<close>
  answers with status 200 and the body \<open>null\<close>, and leaves the store as it was: the
  \<open>null\<close> that \<open>findById\<close> returns is passed to \<open>res.json\<close> and never dereferenced.
\<close>

theorem show_hoot_missing:
  "findById st hootId = None \<Longrightarrow> show_hoot st hootId = (Json 200 JNull, st)"
  by (simp add: show_hoot_def)

theorem show_hoot_missing_witness:
  "findById store1 99 = None \<and> show_hoot store1 99 = (Json 200 JNull, store1)"
  using show_hoot_missing [OF findById_store1_99] findById_store1_99 by simp

text \<open>
  C4, as the claim states it (an id that finds no hoot gives a failure, not a success
  that carries \<open>null\<close>), fails: no hoot of \<open>store1\<close> has the id 99, and the answer is a
  success, status 200, that carries \<open>null\<close>.
\<close>

theorem show_hoot_missing_counterexample:
  "findById store1 99 = None \<and> fst (show_hoot store1 99) = Json 200 JNull \<and>
   status (fst (show_hoot store1 99)) = 200 \<and> fst (show_hoot store1 99) \<noteq> failure TypeError"
  by (simp add: show_hoot_def findById_store1_99 status_def failure_def)

lemma mset_insert_desc: "mset (insert_desc h hs) = add_mset h (mset hs)"
  by (induction hs) auto

lemma mset_sort_desc: "mset (sort_desc hs) = mset hs"
  by (induction hs) (auto simp: mset_insert_desc)

lemma set_insert_desc: "set (insert_desc h hs) = insert h (set hs)"
  by (induction hs) auto

lemma descending_insert_desc:
  "sorted_wrt (\<lambda>a b. hoot_createdAt b \<le> hoot_createdAt a) hs \<Longrightarrow>
   sorted_wrt (\<lambda>a b. hoot_createdAt b \<le> hoot_createdAt a) (insert_desc h hs)"
  by (induction hs) (auto simp: set_insert_desc)

lemma descending_sort_desc:
  "sorted_wrt (\<lambda>a b. hoot_createdAt b \<le> hoot_createdAt a) (sort_desc hs)"
  by (induction hs) (auto simp: descending_insert_desc)

lemma populate_fields:
  "hoot_id (populate st h) = hoot_id h \<and> hoot_title (populate st h) = hoot_title h \<and>
   hoot_text (populate st h) = hoot_text h \<and> hoot_comments (populate st h) = hoot_comments h \<and>
   hoot_createdAt (populate st h) = hoot_createdAt h"
  by (simp add: populate_def set_author_def)

lemma find_user_id: "find_user st uid = Some u \<Longrightarrow> user_id u = uid"
  by (auto simp: find_user_def find_Some_iff)

text \<open>
  C9. \<open>router.get('/')\<close> answers 200 with all the hoots of the store (the same documents,
  as a multiset), each populated, so that an author reference to a user of the store is
  that user's profile, and in descending order of \<open>createdAt\<close>: a hoot created before
  another one comes after it in the list. The store is left as it was.
\<close>

theorem index_hoots_descending:
  "\<exists>vs. index_hoots st = (Json 200 (JHoots vs), st) \<and>
     mset vs = mset (map (populate st) (hoots st)) \<and>
     (\<forall>i j. i < length vs \<longrightarrow> j < length vs \<longrightarrow>
        hoot_createdAt (vs ! i) < hoot_createdAt (vs ! j) \<longrightarrow> j < i) \<and>
     (\<forall>h uid u. hoot_author h = Some uid \<longrightarrow> find_user st uid = Some u \<longrightarrow>
        hoot_author (populate st h) = Some u \<and> user_id u = uid)"
proof -
  let ?vs = "map (populate st) (sort_desc (hoots st))"
  have d: "sorted_wrt (\<lambda>a b. hoot_createdAt b \<le> hoot_createdAt a) ?vs"
    using descending_sort_desc [of "hoots st"]
    by (simp add: sorted_wrt_map populate_fields)
  have o: "j < i" if "i < length ?vs" "j < length ?vs"
    "hoot_createdAt (?vs ! i) < hoot_createdAt (?vs ! j)" for i j
  proof (rule ccontr)
    assume "\<not> j < i"
    with that(3) have "i < j" by (cases "i = j") auto
    from sorted_wrt_nth_less [OF d this that(2)] that(3) show False by simp
  qed
  have m: "mset ?vs = mset (map (populate st) (hoots st))"
    by (simp add: mset_sort_desc)
  have a: "hoot_author (populate st h) = Some u \<and> user_id u = uid"
    if "hoot_author h = Some uid" "find_user st uid = Some u" for h uid u
    using that find_user_id [OF that(2)] by (simp add: populate_def set_author_def)
  have "index_hoots st = (Json 200 (JHoots ?vs), st)" by (simp add: index_hoots_def)
  with m o a show ?thesis by blast
qed

theorem index_hoots_descending_witness:
  "index_hoots store1 = (Json 200 (JHoots [populate store1 hoot2, populate store1 hoot1]), store1) \<and>
   hoot_createdAt hoot1 < hoot_createdAt hoot2 \<and>
   hoot_author hoot1 = Some 1 \<and> find_user store1 1 = Some alice \<and>
   hoot_author (populate store1 hoot1) = Some alice \<and>
   hoot_author (populate store1 hoot2) = Some bob"
proof -
  have i: "index_hoots store1 =
      (Json 200 (JHoots [populate store1 hoot2, populate store1 hoot1]), store1)"
    by (simp add: index_hoots_def store1_def hoot1_def hoot2_def)
  have a: "hoot_author hoot1 = Some 1" "hoot_author hoot2 = Some 2"
    by (simp_all add: hoot1_def hoot2_def)
  have u: "find_user store1 1 = Some alice" "find_user store1 2 = Some bob"
    by (simp_all add: find_user_def store1_def alice_def bob_def)
  have c: "hoot_createdAt hoot1 < hoot_createdAt hoot2"
    by (simp add: hoot1_def hoot2_def)
  from index_hoots_descending [of store1] a u
  have "hoot_author (populate store1 hoot1) = Some alice"
    "hoot_author (populate store1 hoot2) = Some bob"
    by blast+
  with i a u c show ?thesis by simp
qed

subsection \<open>Comments\<close>

text \<open>
  C5, as the code has it. For every existing hoot and every caller, the hoot's author or
  not, \<open>router.post('/:hootId/comments')\<close> answers 201 with the new comment, its
  author expanded to the caller; afterwards the hoot's comments are the former ones
  followed by the new comment, whose author is the caller's id whatever author the body
  carries, and nothing else of the hoot has changed. When no hoot has the id, the handler
  fails with the answer its \<open>catch\<close> gives to every exception, status 500 with the
  \<open>TypeError\<close> that \<open>hoot.comments\<close> on \<open>null\<close> raises, and the store is as before.
\<close>

theorem create_comment_appends:
  "(findById st hootId = Some hoot \<longrightarrow>
      fst (create_comment st req_user hootId req_body now) =
        Json 201 (JComment
          \<lparr>comment_id = (case cbody_id req_body of None \<Rightarrow> next_id st | Some i \<Rightarrow> i),
           comment_author = Some req_user,
           comment_text = cbody_text req_body,
           comment_createdAt = (case cbody_createdAt req_body of None \<Rightarrow> now | Some t \<Rightarrow> t)\<rparr>) \<and>
      findById (snd (create_comment st req_user hootId req_body now)) hootId =
        Some (hoot\<lparr>hoot_comments := hoot_comments hoot @
          [\<lparr>comment_id = (case cbody_id req_body of None \<Rightarrow> next_id st | Some i \<Rightarrow> i),
            comment_author = Some (user_id req_user),
            comment_text = cbody_text req_body,
            comment_createdAt =
              (case cbody_createdAt req_body of None \<Rightarrow> now | Some t \<Rightarrow> t)\<rparr>]\<rparr>)) \<and>
   (findById st hootId = None \<longrightarrow>
      create_comment st req_user hootId req_body now = (Json 500 (JError TypeError), st))"
proof (intro conjI impI)
  assume h: "findById st hootId = Some hoot"
  then show "fst (create_comment st req_user hootId req_body now) =
        Json 201 (JComment
          \<lparr>comment_id = (case cbody_id req_body of None \<Rightarrow> next_id st | Some i \<Rightarrow> i),
           comment_author = Some req_user,
           comment_text = cbody_text req_body,
           comment_createdAt = (case cbody_createdAt req_body of None \<Rightarrow> now | Some t \<Rightarrow> t)\<rparr>)"
    by (simp add: create_comment_def comments_push_def set_comment_author_def Let_def)
  show "findById (snd (create_comment st req_user hootId req_body now)) hootId =
        Some (hoot\<lparr>hoot_comments := hoot_comments hoot @
          [\<lparr>comment_id = (case cbody_id req_body of None \<Rightarrow> next_id st | Some i \<Rightarrow> i),
            comment_author = Some (user_id req_user),
            comment_text = cbody_text req_body,
            comment_createdAt =
              (case cbody_createdAt req_body of None \<Rightarrow> now | Some t \<Rightarrow> t)\<rparr>]\<rparr>)"
    using h findById_hoot_id [OF h]
    by (simp add: create_comment_def comments_push_def Let_def findById_save_same)
next
  assume "findById st hootId = None"
  then show "create_comment st req_user hootId req_body now = (Json 500 (JError TypeError), st)"
    by (simp add: create_comment_def failure_def)
qed

theorem create_comment_appends_witness:
  "findById store1 10 = Some hoot1 \<and> hoot_author hoot1 \<noteq> Some (user_id bob) \<and>
   cbody_author cbody1 \<noteq> Some (user_id bob) \<and>
   fst (create_comment store1 bob 10 cbody1 20) =
     Json 201 (JComment \<lparr>comment_id = 15, comment_author = Some bob,
                         comment_text = Some ''new'', comment_createdAt = 20\<rparr>) \<and>
   findById (snd (create_comment store1 bob 10 cbody1 20)) 10 =
     Some (hoot1\<lparr>hoot_comments := [comment1, comment2, comment3,
             \<lparr>comment_id = 15, comment_author = Some 2, comment_text = Some ''new'',
              comment_createdAt = 20\<rparr>]\<rparr>) \<and>
   findById store1 99 = None \<and>
   create_comment store1 bob 99 cbody1 20 = (Json 500 (JError TypeError), store1)"
proof -
  have n: "next_id store1 = 15" "cbody_text cbody1 = Some ''new''" "user_id bob = 2"
    "cbody_id cbody1 = None" "cbody_createdAt cbody1 = None"
    "hoot_comments hoot1 = [comment1, comment2, comment3]"
    "hoot_author hoot1 \<noteq> Some (user_id bob)" "cbody_author cbody1 \<noteq> Some (user_id bob)"
    by (simp_all add: store1_def cbody1_def bob_def hoot1_def)
  show ?thesis
    using create_comment_appends [where st = store1 and hootId = 10 and hoot = hoot1
        and req_user = bob and req_body = cbody1 and now = 20]
      create_comment_appends [where st = store1 and hootId = 99 and hoot = hoot1
        and req_user = bob and req_body = cbody1 and now = 20]
      findById_store1_10 findById_store1_99 n
    by simp
qed

text \<open>
  C5, as the claim states it (on a missing hoot the failure is NotFound), fails: no hoot
  of \<open>store1\<close> has the id 99, and the answer is not one that reports a missing document
  but the status 500 of the \<open>catch\<close>, carrying the \<open>TypeError\<close> of the property access on
  \<open>null\<close>.
\<close>

theorem create_comment_missing_counterexample:
  "findById store1 99 = None \<and>
   create_comment store1 bob 99 cbody1 20 = (Json 500 (JError TypeError), store1) \<and>
   status (fst (create_comment store1 bob 99 cbody1 20)) = 500"
  by (simp add: create_comment_def findById_store1_99 failure_def status_def)

text \<open>
  C6, as the code has it. For every existing hoot,
  \<open>router.delete('/:hootId/comments/:commentId')\<close> answers 200 and removes every
  comment that has the id; the comments that remain keep their order, and nothing else of
  the hoot has changed. When the comment with the id is the only one that has it, exactly
  that comment is removed: the comments before it followed by the comments after it
  remain.
\<close>

theorem delete_comment_removes_matching:
  assumes "findById st hootId = Some hoot"
  shows "fst (delete_comment st hootId commentId) = Json 200 (JMessage ''Ok'') \<and>
         findById (snd (delete_comment st hootId commentId)) hootId =
           Some (hoot\<lparr>hoot_comments :=
             filter (\<lambda>c. comment_id c \<noteq> commentId) (hoot_comments hoot)\<rparr>) \<and>
         (\<forall>xs c ys.
            hoot_comments hoot = xs @ c # ys \<and> comment_id c = commentId \<and>
            (\<forall>x\<in>set (xs @ ys). comment_id x \<noteq> commentId) \<longrightarrow>
            findById (snd (delete_comment st hootId commentId)) hootId =
              Some (hoot\<lparr>hoot_comments := xs @ ys\<rparr>))"
proof -
  have r: "findById (snd (delete_comment st hootId commentId)) hootId =
      Some (hoot\<lparr>hoot_comments :=
        filter (\<lambda>c. comment_id c \<noteq> commentId) (hoot_comments hoot)\<rparr>)"
    using assms findById_hoot_id [OF assms]
    by (simp add: delete_comment_def comments_remove_def findById_save_same)
  have "filter (\<lambda>c. comment_id c \<noteq> commentId) (hoot_comments hoot) = xs @ ys"
    if "hoot_comments hoot = xs @ c # ys" "comment_id c = commentId"
      "\<forall>x\<in>set (xs @ ys). comment_id x \<noteq> commentId" for xs c ys
    using that by simp
  with r have "findById (snd (delete_comment st hootId commentId)) hootId =
      Some (hoot\<lparr>hoot_comments := xs @ ys\<rparr>)"
    if "hoot_comments hoot = xs @ c # ys \<and> comment_id c = commentId \<and>
      (\<forall>x\<in>set (xs @ ys). comment_id x \<noteq> commentId)" for xs c ys
    using that by simp
  moreover have "fst (delete_comment st hootId commentId) = Json 200 (JMessage ''Ok'')"
    using assms by (simp add: delete_comment_def)
  ultimately show ?thesis
    using r by blast
qed

theorem delete_comment_removes_matching_witness:
  "findById store1 10 = Some hoot1 \<and>
   hoot_comments hoot1 = [comment1] @ comment2 # [comment3] \<and>
   comment_id comment2 = 12 \<and>
   comment_id comment1 \<noteq> 12 \<and> comment_id comment3 \<noteq> 12 \<and>
   fst (delete_comment store1 10 12) = Json 200 (JMessage ''Ok'') \<and>
   findById (snd (delete_comment store1 10 12)) 10 =
     Some (hoot1\<lparr>hoot_comments := [comment1, comment3]\<rparr>)"
proof -
  have a: "hoot_comments hoot1 = [comment1] @ comment2 # [comment3]"
    by (simp add: hoot1_def)
  have b: "comment_id comment2 = 12"
    by (simp add: comment2_def)
  have c: "\<forall>x\<in>set ([comment1] @ [comment3]). comment_id x \<noteq> 12"
    by (simp add: comment1_def comment3_def)
  have d: "comment_id comment1 \<noteq> 12" "comment_id comment3 \<noteq> 12"
    by (simp_all add: comment1_def comment3_def)
  from delete_comment_removes_matching [OF findById_store1_10, of 12] a b c
  have "fst (delete_comment store1 10 12) = Json 200 (JMessage ''Ok'')"
    and "findById (snd (delete_comment store1 10 12)) 10 =
      Some (hoot1\<lparr>hoot_comments := [comment1] @ [comment3]\<rparr>)"
    by blast+
  then show ?thesis
    using findById_store1_10 a b d by simp
qed

text \<open>
  C6, as the claim states it (exactly the one comment is removed), fails. \<open>bob\<close> adds a
  comment to \<open>hoot1\<close> with a body that carries the id 11 of \<open>comment1\<close>; the push keeps
  the id, so the hoot has the comments \<open>comment1\<close>, \<open>comment2\<close>, \<open>comment3\<close> and
  \<open>comment4\<close>, of which the first and the last have the id 11. Removing the comment 11
  removes both: two comments remain of four.
\<close>

theorem delete_comment_duplicate_counterexample:
  "findById (snd (create_comment store1 bob 10 cbody2 20)) 10 =
     Some (hoot1\<lparr>hoot_comments := [comment1, comment2, comment3, comment4]\<rparr>) \<and>
   comment_id comment1 = 11 \<and> comment_id comment4 = 11 \<and> comment1 \<noteq> comment4 \<and>
   findById (snd (delete_comment (snd (create_comment store1 bob 10 cbody2 20)) 10 11)) 10 =
     Some (hoot1\<lparr>hoot_comments := [comment2, comment3]\<rparr>)"
  by (simp add: create_comment_def delete_comment_def comments_push_def comments_remove_def
      save_def findById_def Let_def example_defs)

text \<open>
  C10. For every existing hoot and every comment id that none of its comments has,
  \<open>router.delete('/:hootId/comments/:commentId')\<close> answers 200 with the message
  \<open>Ok\<close> and leaves the store, and so the hoot's comments, as it was.
\<close>

theorem delete_comment_absent:
  assumes "findById st hootId = Some hoot"
    and "commentId \<notin> comment_id ` set (hoot_comments hoot)"
  shows "delete_comment st hootId commentId = (Json 200 (JMessage ''Ok''), st)"
proof -
  have "comments_remove (hoot_comments hoot) commentId = hoot_comments hoot"
    using assms(2) by (auto simp: comments_remove_def filter_id_conv)
  then show ?thesis
    using assms(1) by (simp add: delete_comment_def save_self)
qed

theorem delete_comment_absent_witness:
  "findById store1 10 = Some hoot1 \<and> 99 \<notin> comment_id ` set (hoot_comments hoot1) \<and>
   delete_comment store1 10 99 = (Json 200 (JMessage ''Ok''), store1)"
proof -
  have a: "99 \<notin> comment_id ` set (hoot_comments hoot1)"
    by (simp add: hoot1_def comment1_def comment2_def comment3_def)
  show ?thesis
    using delete_comment_absent [OF findById_store1_10 a] findById_store1_10 a by simp
qed

lemma comments_id_first:
  "\<forall>x\<in>set xs. comment_id x \<noteq> commentId \<Longrightarrow> comment_id c = commentId \<Longrightarrow>
   comments_id (xs @ c # ys) commentId = Some c"
  by (induction xs) (simp_all add: comments_id_def)

lemma assign_text_first:
  "\<forall>x\<in>set xs. comment_id x \<noteq> commentId \<Longrightarrow> comment_id c = commentId \<Longrightarrow>
   assign_text commentId t (xs @ c # ys) = xs @ c\<lparr>comment_text := t\<rparr> # ys"
  by (induction xs) simp_all

text \<open>A comment list that has a comment with the id has a first one.\<close>

lemma first_comment_with_id:
  assumes "commentId \<in> comment_id ` set cs"
  shows "\<exists>xs c ys. cs = xs @ c # ys \<and> comment_id c = commentId \<and>
           (\<forall>x\<in>set xs. comment_id x \<noteq> commentId)"
proof -
  from assms have "\<exists>c\<in>set cs. comment_id c = commentId" by auto
  then show ?thesis
    by (auto dest!: split_list_first_prop)
qed

lemma comments_id_None:
  "(comments_id cs commentId = None) = (commentId \<notin> comment_id ` set cs)"
  by (auto simp: comments_id_def find_None_iff)

text \<open>
  C7. For every hoot that has a comment with the given id (\<open>c\<close>, the one that
  \<open>comments.id\<close> finds), \<open>router.put('/:hootId/comments/:commentId')\<close> answers 200 and
  sets the text of that comment to the text of the body. Nothing else changes: the
  comment keeps its id, author and creation time, the comments before and after it and
  the other fields of the hoot are as before, every other hoot is as before, and so are
  the users and the next fresh id.
\<close>

theorem update_comment_frame:
  assumes "findById st hootId = Some hoot"
    and "hoot_comments hoot = xs @ c # ys"
    and "comment_id c = commentId"
    and "\<forall>x\<in>set xs. comment_id x \<noteq> commentId"
  shows "fst (update_comment st hootId commentId req_body) = Json 200 (JMessage ''Ok'') \<and>
         findById (snd (update_comment st hootId commentId req_body)) hootId =
           Some (hoot\<lparr>hoot_comments := xs @ c\<lparr>comment_text := body_text req_body\<rparr> # ys\<rparr>) \<and>
         (\<forall>i. i \<noteq> hootId \<longrightarrow>
            findById (snd (update_comment st hootId commentId req_body)) i = findById st i) \<and>
         users (snd (update_comment st hootId commentId req_body)) = users st \<and>
         next_id (snd (update_comment st hootId commentId req_body)) = next_id st"
  using assms findById_hoot_id [OF assms(1)] comments_id_first [OF assms(4,3)]
    assign_text_first [OF assms(4,3)]
  by (simp add: update_comment_def findById_save_same findById_save_other)
    (simp add: save_def)

theorem update_comment_frame_witness:
  "findById store1 10 = Some hoot1 \<and>
   hoot_comments hoot1 = [comment1] @ comment2 # [comment3] \<and>
   comment_id comment2 = 12 \<and>
   comment_id comment1 \<noteq> 12 \<and>
   fst (update_comment store1 10 12 body1) = Json 200 (JMessage ''Ok'') \<and>
   findById (snd (update_comment store1 10 12 body1)) 10 =
     Some (hoot1\<lparr>hoot_comments :=
       [comment1, comment2\<lparr>comment_text := Some ''new''\<rparr>, comment3]\<rparr>) \<and>
   (14::nat) \<noteq> 10 \<and>
   findById (snd (update_comment store1 10 12 body1)) 14 = Some hoot2"
proof -
  have a: "hoot_comments hoot1 = [comment1] @ comment2 # [comment3]"
    by (simp add: hoot1_def)
  have b: "comment_id comment2 = 12"
    by (simp add: comment2_def)
  have c: "\<forall>x\<in>set [comment1]. comment_id x \<noteq> 12"
    by (simp add: comment1_def)
  have d: "body_text body1 = Some ''new''"
    by (simp add: body1_def)
  show ?thesis
    using update_comment_frame [OF findById_store1_10 a b c, of body1]
      findById_store1_10 findById_store1_14 a b d
    by (simp add: comment1_def)
qed

text \<open>
  C8, as the code has it. \<open>router.put('/:hootId/comments/:commentId')\<close> fails in
  exactly two cases: no hoot has the id, or the hoot has no comment with the comment id.
  The failure is the answer the \<open>catch\<close> gives to every exception, status 500 with the
  \<open>TypeError\<close> of the property access on \<open>null\<close>. In those cases the store is as before;
  in every other case the answer is 200.
\<close>

theorem update_comment_failure:
  "(fst (update_comment st hootId commentId req_body) = Json 500 (JError TypeError)) =
     (findById st hootId = None \<or>
      (\<exists>hoot. findById st hootId = Some hoot \<and>
              commentId \<notin> comment_id ` set (hoot_comments hoot))) \<and>
   (fst (update_comment st hootId commentId req_body) = Json 500 (JError TypeError) \<longrightarrow>
      snd (update_comment st hootId commentId req_body) = st) \<and>
   (fst (update_comment st hootId commentId req_body) \<noteq> Json 500 (JError TypeError) \<longrightarrow>
      fst (update_comment st hootId commentId req_body) = Json 200 (JMessage ''Ok''))"
  by (auto simp: update_comment_def failure_def comments_id_None [symmetric]
      split: option.splits)

theorem update_comment_failure_witness:
  "findById store1 99 = None \<and>
   update_comment store1 99 12 body1 = (Json 500 (JError TypeError), store1) \<and>
   findById store1 10 = Some hoot1 \<and> 99 \<notin> comment_id ` set (hoot_comments hoot1) \<and>
   update_comment store1 10 99 body1 = (Json 500 (JError TypeError), store1) \<and>
   12 \<in> comment_id ` set (hoot_comments hoot1) \<and>
   fst (update_comment store1 10 12 body1) = Json 200 (JMessage ''Ok'')"
proof -
  have a: "99 \<notin> comment_id ` set (hoot_comments hoot1)"
    "12 \<in> comment_id ` set (hoot_comments hoot1)"
    by (simp_all add: hoot1_def comment1_def comment2_def comment3_def)
  have "fst (update_comment store1 99 12 body1) = Json 500 (JError TypeError)"
    using update_comment_failure [of store1 99 12 body1] findById_store1_99 by simp
  moreover have "fst (update_comment store1 10 99 body1) = Json 500 (JError TypeError)"
    using update_comment_failure [of store1 10 99 body1] findById_store1_10 a by simp
  moreover have "fst (update_comment store1 10 12 body1) \<noteq> Json 500 (JError TypeError)"
    using update_comment_failure [of store1 10 12 body1] findById_store1_10 a by simp
  ultimately show ?thesis
    using update_comment_failure [of store1 99 12 body1]
      update_comment_failure [of store1 10 99 body1]
      update_comment_failure [of store1 10 12 body1]
      findById_store1_10 findById_store1_99 a
    by (simp add: prod_eq_iff)
qed

text \<open>
  C8, as the claim states it (the failure is NotFound), fails: for a hoot id that no hoot
  of \<open>store1\<close> has, and for a comment id that no comment of \<open>hoot1\<close> has, the answer is
  not one that reports a missing document but the status 500 of the \<open>catch\<close>, carrying
  the \<open>TypeError\<close> of the property access on \<open>null\<close>.
\<close>

theorem update_comment_missing_counterexample:
  "findById store1 99 = None \<and>
   fst (update_comment store1 99 12 body1) = Json 500 (JError TypeError) \<and>
   status (fst (update_comment store1 99 12 body1)) = 500 \<and>
   findById store1 10 = Some hoot1 \<and> 99 \<notin> comment_id ` set (hoot_comments hoot1) \<and>
   fst (update_comment store1 10 99 body1) = Json 500 (JError TypeError) \<and>
   status (fst (update_comment store1 10 99 body1)) = 500"
  by (simp add: update_comment_def comments_id_def findById_store1_99 findById_store1_10
      failure_def status_def hoot1_def comment1_def comment2_def comment3_def)

end
